theory Spec2Isabelle
  imports
    Main
    "HOL-Library.Sublist"
    "HOL-Library.Char_ord"
    "HOL-Library.List_Lexorder"
    "HOL-Library.AList"
    "HOL-Library.Multiset"
begin

section \<open>Strings\<close>

text \<open>
  JavaScript strings are modelled as \<^typ>\<open>string\<close>, one \<^typ>\<open>char\<close> per code unit, and
  the model covers ASCII text: \<open>toLowerCase\<close> maps the letters A to Z, and the white space
  that \<open>trim\<close> and the pattern \<open>\s\<close> recognise is tab, line feed, vertical tab, form
  feed, carriage return and space.
\<close>

definition toLowerCase :: "string \<Rightarrow> string" where
  "toLowerCase s =
     map (\<lambda>c. case map_of (zip ''ABCDEFGHIJKLMNOPQRSTUVWXYZ'' ''abcdefghijklmnopqrstuvwxyz'') c of
                 Some l \<Rightarrow> l
               | None \<Rightarrow> c) s"

definition is_space :: "char \<Rightarrow> bool" where
  "is_space c = (c \<in> set [CHR 0x09, CHR 0x0A, CHR 0x0B, CHR 0x0C, CHR 0x0D, CHR '' ''])"

definition trim :: "string \<Rightarrow> string" where
  "trim s = rev (dropWhile is_space (rev (dropWhile is_space s)))"

definition startsWith :: "string \<Rightarrow> string \<Rightarrow> bool" where
  "startsWith s p = prefix p s"

definition endsWith :: "string \<Rightarrow> string \<Rightarrow> bool" where
  "endsWith s p = prefix (rev p) (rev s)"

text \<open>\<open>s.slice(start, end)\<close>: a negative index counts from the end, both are clamped.\<close>

definition slice :: "string \<Rightarrow> int \<Rightarrow> int \<Rightarrow> string" where
  "slice s start end =
     (let len = int (length s);
          from = (if start < 0 then max (len + start) 0 else min start len);
          to = (if end < 0 then max (len + end) 0 else min end len)
      in take (nat (to - from)) (drop (nat from) s))"

text \<open>\<open>hay.includes(needle)\<close>: the needle is searched at every position of the haystack.\<close>

fun str_includes :: "string \<Rightarrow> string \<Rightarrow> bool" where
  "str_includes [] needle = (needle = [])"
| "str_includes (h # hay) needle = (prefix needle (h # hay) \<or> str_includes hay needle)"

section \<open>Papers and the filter predicates\<close>

text \<open>
  A paper as the filters read it. A field that is missing, \<open>null\<close> or the empty string is
  \<open>None\<close> or \<open>Some []\<close> (both are falsy for \<open>s || ""\<close>); \<open>category\<close> is \<open>None\<close> when
  the property is not an array. \<open>date\<close> is the property \<open>__date\<close> that \<open>fetchDay\<close> writes
  on every paper it returns.
\<close>

record paper =
  pid :: "string option"
  link :: "string option"
  title :: "string option"
  summary :: "string option"
  category :: "string list option"
  published :: "string option"
  date :: string

text \<open>\<open>function normalize(s){ return (s||"").toLowerCase(); }\<close>\<close>

definition normalize_str :: "string option \<Rightarrow> string" where
  "normalize_str s = toLowerCase (case s of None \<Rightarrow> [] | Some v \<Rightarrow> v)"

text \<open>The callback that \<open>textMatches\<close> passes to \<open>terms.every\<close>.\<close>

definition term_found :: "string \<Rightarrow> string \<Rightarrow> bool" where
  "term_found hay trm =
     (let trm = trim trm
      in if trm = [] then True
         else
           let quoted = (startsWith trm [CHR 0x22] \<and> endsWith trm [CHR 0x22]);
               needle = normalize_str (Some (if quoted then slice trm 1 (- 1) else trm))
           in str_includes hay needle)"

definition textMatches :: "paper \<Rightarrow> string list \<Rightarrow> bool \<Rightarrow> bool" where
  "textMatches p terms titleOnly =
     (if length terms = 0 then True
      else
        let ttl = normalize_str (title p);
            summ = normalize_str (summary p);
            hay = (if titleOnly then ttl else ttl @ '' '' @ summ)
        in list_all (term_found hay) terms)"

text \<open>
  The allowed categories are a \<open>Set\<close> of strings, given by the list of its elements;
  \<open>allowed.size\<close> is its length and \<open>allowed.has(c)\<close> is membership.
\<close>

definition categoryMatches :: "paper \<Rightarrow> string list \<Rightarrow> bool" where
  "categoryMatches p allowed =
     (if length allowed = 0 then True
      else
        let cats = (case category p of Some cs \<Rightarrow> cs | None \<Rightarrow> [])
        in list_ex (\<lambda>c. c \<in> set allowed) cats)"

subsection \<open>The text match as the specification words it\<close>

text \<open>
  The specification's reading of a term: surrounding double quotes are stripped, and the
  comparison ignores case.
\<close>

definition strip_quotes :: "string \<Rightarrow> string" where
  "strip_quotes t =
     (if t \<noteq> [] \<and> hd t = CHR 0x22 \<and> last t = CHR 0x22 then butlast (tl t) else t)"

text \<open>
  The text match in the specification's words: every term is a substring of the title, or
  of the title directly followed by the summary.
\<close>

definition spec_textMatches :: "paper \<Rightarrow> string list \<Rightarrow> bool \<Rightarrow> bool" where
  "spec_textMatches p T b =
     (T = [] \<or>
      (\<forall>t \<in> set T.
         sublist (toLowerCase (strip_quotes t))
           (if b then normalize_str (title p) else normalize_str (title p) @ normalize_str (summary p))))"

text \<open>
  The text a paper is searched in, as the code builds it: title and summary are joined
  by one space.
\<close>

definition haystack :: "paper \<Rightarrow> bool \<Rightarrow> string" where
  "haystack p b =
     (if b then normalize_str (title p) else normalize_str (title p) @ '' '' @ normalize_str (summary p))"

section \<open>Grouping by date\<close>

text \<open>
  \<open>groupByDate\<close> fills a \<open>Map\<close> from date to papers: an association list in insertion
  order with \<open>has\<close>, \<open>set\<close> and \<open>get\<close>. \<open>map.get(k).push(p)\<close> appends to the list
  stored under \<open>k\<close>.
\<close>

type_synonym date_map = "(string \<times> paper list) list"

definition map_has :: "date_map \<Rightarrow> string \<Rightarrow> bool" where
  "map_has m k = (k \<in> fst ` set m)"

definition map_set :: "date_map \<Rightarrow> string \<Rightarrow> paper list \<Rightarrow> date_map" where
  "map_set m k v = AList.update k v m"

definition map_get :: "date_map \<Rightarrow> string \<Rightarrow> paper list option" where
  "map_get m k = map_of m k"

text \<open>One round of the loop \<open>for(const p of papers)\<close>.\<close>

definition group_step :: "paper \<Rightarrow> date_map \<Rightarrow> date_map" where
  "group_step p m =
     (let m = (if \<not> map_has m (date p) then map_set m (date p) [] else m)
      in case map_get m (date p) of
           Some items \<Rightarrow> map_set m (date p) (items @ [p])
         | None \<Rightarrow> m)"

text \<open>
  \<open>Array.prototype.sort\<close> with a comparator. The language leaves the algorithm open; the
  model is a stable insertion sort that moves an element behind the ones the comparator
  ranks before it (\<open>cmp x y > 0\<close> puts \<open>x\<close> after \<open>y\<close>).
\<close>

fun insert_by :: "('a \<Rightarrow> 'a \<Rightarrow> int) \<Rightarrow> 'a \<Rightarrow> 'a list \<Rightarrow> 'a list" where
  "insert_by cmp x [] = [x]"
| "insert_by cmp x (y # ys) = (if cmp x y > 0 then y # insert_by cmp x ys else x # y # ys)"

definition js_sort :: "('a \<Rightarrow> 'a \<Rightarrow> int) \<Rightarrow> 'a list \<Rightarrow> 'a list" where
  "js_sort cmp xs = foldr (insert_by cmp) xs []"

text \<open>The comparator \<open>(a,b)=> a[0]<b[0]?1:-1\<close> on the entries of the map.\<close>

definition date_desc :: "string \<times> paper list \<Rightarrow> string \<times> paper list \<Rightarrow> int" where
  "date_desc a b = (if fst a < fst b then 1 else - 1)"

definition groupByDate :: "paper list \<Rightarrow> date_map" where
  "groupByDate papers = js_sort date_desc (fold group_step papers [])"

text \<open>
  The loop invariant of \<open>groupByDate\<close>: the keys are distinct, and under each date seen
  so far the map holds the papers of that date in their order of arrival.
\<close>

definition grouped :: "date_map \<Rightarrow> paper list \<Rightarrow> bool" where
  "grouped m seen \<longleftrightarrow>
     distinct (map fst m) \<and>
     (\<forall>d. map_of m d =
        (if d \<in> date ` set seen then Some (filter (\<lambda>p. date p = d) seen) else None))"

section \<open>Loading the daily files\<close>

text \<open>
  What \<open>fetch\<close> and \<open>res.json()\<close> deliver for one URL: the request is rejected (network
  failure), or a response arrives with a status and a body. The body is \<open>None\<close> when
  \<open>res.json()\<close> rejects (not JSON), otherwise the parsed payload, which is an array of
  papers or something else.
\<close>

datatype payload = NotArray | Papers "paper list"

datatype response = Rejected | Response nat "payload option"

text \<open>\<open>res.ok\<close>: the status is in the range 200 to 299.\<close>

definition ok :: "nat \<Rightarrow> bool" where
  "ok status = (200 \<le> status \<and> status \<le> 299)"

definition day_url :: "string \<Rightarrow> string" where
  "day_url dateStr = ''paper_json/'' @ dateStr @ ''.json''"

definition fetchDay :: "(string \<Rightarrow> response) \<Rightarrow> string \<Rightarrow> paper list" where
  "fetchDay net dateStr =
     (case net (day_url dateStr) of
        Rejected \<Rightarrow> []
      | Response status body \<Rightarrow>
          if \<not> ok status then []
          else (case body of
                  None \<Rightarrow> []
                | Some NotArray \<Rightarrow> []
                | Some (Papers papers) \<Rightarrow> map (\<lambda>p. p\<lparr>date := dateStr\<rparr>) papers))"

text \<open>
  The loop of \<open>loadDays\<close> pushes one task per day; \<open>isoDate i\<close> stands for
  \<open>fmtDateISO\<close> of today minus \<open>i\<close> days. Every task settles, since \<open>fetchDay\<close>
  catches all failures, so \<open>Promise.all\<close> delivers the results in the order of the tasks
  and \<open>results.flat()\<close> concatenates them.
\<close>

function loadDays_loop ::
  "(string \<Rightarrow> response) \<Rightarrow> (int \<Rightarrow> string) \<Rightarrow> int \<Rightarrow> int \<Rightarrow> paper list list \<Rightarrow> paper list list" where
  "loadDays_loop net isoDate nDays i tasks =
     (if i < nDays then loadDays_loop net isoDate nDays (i + 1) (tasks @ [fetchDay net (isoDate i)])
      else tasks)"
  by pat_completeness auto
termination
  by (relation "measure (\<lambda>(net, isoDate, nDays, i, tasks). nat (nDays - i))") auto

declare loadDays_loop.simps [simp del]

definition loadDays :: "(string \<Rightarrow> response) \<Rightarrow> (int \<Rightarrow> string) \<Rightarrow> int \<Rightarrow> paper list" where
  "loadDays net isoDate nDays = concat (loadDays_loop net isoDate nDays 0 [])"

text \<open>
  A day fails when the request is rejected, the status is not OK, the body is not JSON
  or the payload is not an array.
\<close>

definition day_failed :: "response \<Rightarrow> bool" where
  "day_failed r =
     (case r of Rejected \<Rightarrow> True
      | Response status body \<Rightarrow> \<not> ok status \<or> body = None \<or> body = Some NotArray)"

section \<open>Extracting the search terms\<close>

definition dquote :: char where
  "dquote = CHR 0x22"

text \<open>
  One attempt of the pattern \<open>"([^"]+)"\<close> at the start of a text: an opening quote, the
  longest run of characters other than the quote, which must not be empty, and a closing
  quote. The result is the captured group and the text behind the match.
\<close>

definition match_here :: "string \<Rightarrow> (string \<times> string) option" where
  "match_here s =
     (case s of
        [] \<Rightarrow> None
      | c # cs \<Rightarrow>
          if c \<noteq> dquote then None
          else
            let body = takeWhile (\<lambda>x. x \<noteq> dquote) cs;
                rest = dropWhile (\<lambda>x. x \<noteq> dquote) cs
            in if body = [] \<or> rest = [] then None else Some (body, tl rest))"










section \<open>JSON values and browser-local storage\<close>

text \<open>
  The values that \<open>JSON.parse\<close> produces. Numbers are integers in the model. An object
  lists its members as the text does; \<open>members\<close> gives the properties that \<open>JSON.parse\<close>
  creates from them: a key that occurs twice keeps its first place and its last value.
  Every key becomes an own property, \<open>__proto__\<close> too.
\<close>

datatype json =
    JNull
  | JBool bool
  | JNum int
  | JStr string
  | JArr "json list"
  | JObj "(string \<times> json) list"

definition members :: "(string \<times> json) list \<Rightarrow> (string \<times> json) list" where
  "members kvs = fold (\<lambda>(k, v). AList.update k v) kvs []"

datatype js_error = SyntaxError | TypeError

text \<open>
  A text (an item of local storage, the content of a file) is represented by what
  \<open>JSON.parse\<close> makes of it: a value, or nothing when the text is not JSON, as is the
  empty text. \<open>JSON.stringify\<close> of a value gives a text that parses back to the value.
\<close>

datatype js_text = Unparsable | Json json

definition JSON_parse :: "js_text \<Rightarrow> js_error + json" where
  "JSON_parse t = (case t of Unparsable \<Rightarrow> Inl SyntaxError | Json v \<Rightarrow> Inr v)"

definition JSON_stringify :: "json \<Rightarrow> js_text" where
  "JSON_stringify v = Json v"

datatype storage_key = READ_LATER | TOPICS | STARS_BY_TOPIC

text \<open>
  \<open>localStorage\<close>: \<open>getItem\<close> gives \<open>null\<close> (here \<open>None\<close>) for a key never set;
  \<open>setItem\<close> stores the text (a storage that is full or switched off is not modelled).
\<close>

type_synonym local_storage = "storage_key \<Rightarrow> js_text option"

definition empty_storage :: local_storage where
  "empty_storage = (\<lambda>k. None)"

text \<open>
  \<open>loadJSON\<close>: the fallback when the item is missing, empty (an empty text does not parse
  either) or not JSON.
\<close>

definition loadJSON :: "storage_key \<Rightarrow> json \<Rightarrow> local_storage \<Rightarrow> json" where
  "loadJSON key fallback ls =
     (case ls key of
        None \<Rightarrow> fallback
      | Some s \<Rightarrow> (case JSON_parse s of Inl e \<Rightarrow> fallback | Inr v \<Rightarrow> v))"

definition saveJSON :: "storage_key \<Rightarrow> json \<Rightarrow> local_storage \<Rightarrow> local_storage" where
  "saveJSON key val ls = ls(key := Some (JSON_stringify val))"

subsection \<open>Sets\<close>

text \<open>
  A \<open>Set\<close> is the list of its elements in insertion order. Membership is
  \<open>SameValueZero\<close>: equality on \<open>null\<close>, booleans, numbers and strings; an array or an
  object is the same as no other value, since every one here is fresh from \<open>JSON.parse\<close>.
\<close>

type_synonym js_set = "json list"

fun primitive :: "json \<Rightarrow> bool" where
  "primitive (JArr xs) = False"
| "primitive (JObj kvs) = False"
| "primitive v = True"

definition same_value_zero :: "json \<Rightarrow> json \<Rightarrow> bool" where
  "same_value_zero a b = (primitive a \<and> a = b)"

definition set_has :: "js_set \<Rightarrow> json \<Rightarrow> bool" where
  "set_has s x = list_ex (\<lambda>y. same_value_zero y x) s"

definition set_add :: "js_set \<Rightarrow> json \<Rightarrow> js_set" where
  "set_add s x = (if set_has s x then s else s @ [x])"

definition set_delete :: "js_set \<Rightarrow> json \<Rightarrow> js_set" where
  "set_delete s x = filter (\<lambda>y. \<not> same_value_zero y x) s"

text \<open>
  \<open>new Set(v)\<close> adds what iterating \<open>v\<close> yields: nothing for \<open>null\<close>, the elements of an
  array, the characters of a string; a boolean, a number or an object is not iterable.
\<close>

definition new_Set :: "json \<Rightarrow> js_error + js_set" where
  "new_Set v =
     (case v of
        JNull \<Rightarrow> Inr []
      | JArr xs \<Rightarrow> Inr (fold (\<lambda>x s. set_add s x) xs [])
      | JStr s \<Rightarrow> Inr (fold (\<lambda>x s. set_add s x) (map (\<lambda>c. JStr [c]) s) [])
      | _ \<Rightarrow> Inl TypeError)"

text \<open>The invariant of a \<open>Set\<close>: no element is the same as a later one.\<close>

fun set_ok :: "js_set \<Rightarrow> bool" where
  "set_ok [] = True"
| "set_ok (x # xs) = (\<not> list_ex (\<lambda>y. same_value_zero x y) xs \<and> set_ok xs)"

subsection \<open>Read-later set and topic list\<close>

definition loadReadLater :: "local_storage \<Rightarrow> js_error + js_set" where
  "loadReadLater ls = new_Set (loadJSON READ_LATER (JArr []) ls)"

definition saveReadLater :: "js_set \<Rightarrow> local_storage \<Rightarrow> local_storage" where
  "saveReadLater s ls = saveJSON READ_LATER (JArr s) ls"

definition loadTopics :: "local_storage \<Rightarrow> json" where
  "loadTopics ls = loadJSON TOPICS (JArr []) ls"

definition saveTopics :: "json \<Rightarrow> local_storage \<Rightarrow> local_storage" where
  "saveTopics list ls = saveJSON TOPICS list ls"

subsection \<open>The stars: a plain object with sets as values\<close>

text \<open>
  \<open>loadStarsByTopic\<close> and the import of a full payload fill an object literal \<open>{}\<close> with
  sets. Such an object has own properties and a prototype. The prototype is
  \<open>Object.prototype\<close> at first; an assignment to the key \<open>__proto__\<close> calls the setter
  that \<open>Object.prototype\<close> holds for it and makes the assigned set the prototype, without
  creating a property. The own properties are listed in the order of their creation.
\<close>

datatype proto = ObjectPrototype | SetInstance js_set

datatype star_obj = StarObj (own: "(string \<times> js_set) list") (proto: proto)

definition empty_obj :: star_obj where
  "empty_obj = StarObj [] ObjectPrototype"

text \<open>
  The property names that \<open>Object.prototype\<close> and \<open>Set.prototype\<close> hold in current
  browsers. Under \<open>__proto__\<close> \<open>Object.prototype\<close> has an accessor, under \<open>size\<close>
  \<open>Set.prototype\<close> has a getter without a setter; all the others are methods, which
  can be overwritten.
\<close>

definition object_prototype_names :: "string list" where
  "object_prototype_names =
     [''constructor'', ''__defineGetter__'', ''__defineSetter__'', ''hasOwnProperty'',
      ''__lookupGetter__'', ''__lookupSetter__'', ''isPrototypeOf'', ''propertyIsEnumerable'',
      ''toString'', ''valueOf'', ''__proto__'', ''toLocaleString'']"

definition set_prototype_names :: "string list" where
  "set_prototype_names =
     [''constructor'', ''has'', ''add'', ''delete'', ''clear'', ''entries'', ''forEach'',
      ''size'', ''values'', ''keys'', ''union'', ''intersection'', ''difference'',
      ''symmetricDifference'', ''isSubsetOf'', ''isSupersetOf'', ''isDisjointFrom'']"

text \<open>
  What \<open>sbt[k]\<close> reads: \<open>undefined\<close>, a set, or an inherited member that is no set (a
  method, or \<open>Object.prototype\<close> itself under \<open>__proto__\<close>): truthy, not iterable, without
  \<open>add\<close> and \<open>delete\<close>.
\<close>

datatype lookup = Undefined | ASet js_set | Inherited

text \<open>
  \<open>sbt[k]\<close>: the own property, else what the prototype chain holds. When the prototype
  is a set, \<open>__proto__\<close> reads that set, and \<open>size\<close> runs the getter of \<open>Set.prototype\<close> on
  an object that is no set, which raises a \<open>TypeError\<close>.
\<close>

definition obj_get :: "star_obj \<Rightarrow> string \<Rightarrow> js_error + lookup" where
  "obj_get obj k =
     (case map_of (own obj) k of
        Some s \<Rightarrow> Inr (ASet s)
      | None \<Rightarrow>
          (case proto obj of
             ObjectPrototype \<Rightarrow>
               Inr (if k \<in> set object_prototype_names then Inherited else Undefined)
           | SetInstance s \<Rightarrow>
               if k = ''__proto__'' then Inr (ASet s)
               else if k = ''size'' then Inl TypeError
               else Inr (if k \<in> set set_prototype_names \<or> k \<in> set object_prototype_names
                         then Inherited else Undefined)))"

text \<open>
  \<open>sbt[k] = s\<close> for a set \<open>s\<close>, in strict mode: an own property is overwritten;
  \<open>__proto__\<close> replaces the prototype; \<open>size\<close> under a set as prototype has no setter and
  raises a \<open>TypeError\<close>; every other key becomes a new own property.
\<close>

definition obj_set :: "star_obj \<Rightarrow> string \<Rightarrow> js_set \<Rightarrow> js_error + star_obj" where
  "obj_set obj k s =
     (if map_of (own obj) k \<noteq> None then Inr (StarObj (AList.update k s (own obj)) (proto obj))
      else if k = ''__proto__'' then Inr (StarObj (own obj) (SetInstance s))
      else if k = ''size'' \<and> proto obj \<noteq> ObjectPrototype then Inl TypeError
      else Inr (StarObj (AList.update k s (own obj)) (proto obj)))"

text \<open>\<open>delete sbt[k]\<close> removes an own property and leaves the prototype alone.\<close>

definition obj_delete :: "star_obj \<Rightarrow> string \<Rightarrow> star_obj" where
  "obj_delete obj k = StarObj (AList.delete k (own obj)) (proto obj)"

text \<open>\<open>if(!sbt[k]) sbt[k] = new Set();\<close>\<close>

definition ensure_set :: "star_obj \<Rightarrow> string \<Rightarrow> js_error + star_obj" where
  "ensure_set obj k =
     (case obj_get obj k of
        Inl e \<Rightarrow> Inl e
      | Inr v \<Rightarrow> (case v of Undefined \<Rightarrow> obj_set obj k [] | _ \<Rightarrow> Inr obj))"

text \<open>
  \<open>sbt[k].add(x)\<close> and \<open>sbt[k].delete(x)\<close>, with \<open>f\<close> the change of the set: a
  \<open>TypeError\<close> when \<open>sbt[k]\<close> is \<open>undefined\<close> or an inherited member; otherwise the set
  that was read is changed, be it an own property or the prototype.
\<close>

definition obj_update_set :: "star_obj \<Rightarrow> string \<Rightarrow> (js_set \<Rightarrow> js_set) \<Rightarrow> js_error + star_obj" where
  "obj_update_set obj k f =
     (case obj_get obj k of
        Inl e \<Rightarrow> Inl e
      | Inr v \<Rightarrow>
          (case v of
             Undefined \<Rightarrow> Inl TypeError
           | Inherited \<Rightarrow> Inl TypeError
           | ASet s \<Rightarrow>
               if map_of (own obj) k \<noteq> None
               then Inr (StarObj (AList.update k (f s) (own obj)) (proto obj))
               else Inr (StarObj (own obj) (SetInstance (f s)))))"

text \<open>
  \<open>Object.keys\<close> lists the own properties of an object in the order of
  \<open>OrdinaryOwnPropertyKeys\<close>: first the keys that are array indices, in ascending
  numeric order, then the other keys in the order of their creation. An array index is
  the decimal numeral, without a leading zero, of a number below \<open>2^32 - 1\<close>.
\<close>

definition is_digit :: "char \<Rightarrow> bool" where
  "is_digit c = (c \<in> set ''0123456789'')"

definition digit_value :: "char \<Rightarrow> int" where
  "digit_value c = int (length (takeWhile (\<lambda>d. d \<noteq> c) ''0123456789''))"

definition index_value :: "string \<Rightarrow> int" where
  "index_value k = fold (\<lambda>c n. 10 * n + digit_value c) k 0"

definition is_index :: "string \<Rightarrow> bool" where
  "is_index k =
     (case k of
        [] \<Rightarrow> False
      | c # cs \<Rightarrow>
          list_all is_digit k \<and> (if c = CHR ''0'' then cs = [] else True) \<and>
          index_value k < 4294967295)"

definition own_property_order :: "(string \<times> 'a) list \<Rightarrow> (string \<times> 'a) list" where
  "own_property_order m =
     sort_key (\<lambda>(k, v). index_value k) (filter (\<lambda>(k, v). is_index k) m) @
     filter (\<lambda>(k, v). \<not> is_index k) m"

text \<open>The decimal numeral of an array index, as \<open>Object.keys\<close> of an array names it.\<close>

fun decimal :: "nat \<Rightarrow> string" where
  "decimal n =
     (if n < 10 then [''0123456789'' ! n]
      else decimal (n div 10) @ [''0123456789'' ! (n mod 10)])"

declare decimal.simps [simp del]

text \<open>
  \<open>Object.keys(obj)\<close> with \<open>obj[k]\<close> for each key, for a parsed value: the members of an
  object, the indexed elements of an array, the indexed characters of a string, nothing
  for a boolean or a number; \<open>null\<close> raises a \<open>TypeError\<close>.
\<close>

definition own_entries :: "json \<Rightarrow> js_error + (string \<times> json) list" where
  "own_entries v =
     (case v of
        JNull \<Rightarrow> Inl TypeError
      | JBool b \<Rightarrow> Inr []
      | JNum n \<Rightarrow> Inr []
      | JStr s \<Rightarrow> Inr (zip (map decimal [0..<length s]) (map (\<lambda>c. JStr [c]) s))
      | JArr xs \<Rightarrow> Inr (zip (map decimal [0..<length xs]) xs)
      | JObj kvs \<Rightarrow> Inr (own_property_order (members kvs)))"

text \<open>The loop \<open>for(const k of Object.keys(obj)) out[k] = new Set(obj[k])\<close>.\<close>

fun stars_loop :: "(string \<times> json) list \<Rightarrow> star_obj \<Rightarrow> js_error + star_obj" where
  "stars_loop [] out = Inr out"
| "stars_loop ((k, v) # rest) out =
     (case new_Set v of
        Inl e \<Rightarrow> Inl e
      | Inr s \<Rightarrow> (case obj_set out k s of Inl e \<Rightarrow> Inl e | Inr out \<Rightarrow> stars_loop rest out))"

definition stars_of :: "json \<Rightarrow> js_error + star_obj" where
  "stars_of obj =
     (case own_entries obj of
        Inl e \<Rightarrow> Inl e
      | Inr entries \<Rightarrow> stars_loop entries empty_obj)"

definition loadStarsByTopic :: "local_storage \<Rightarrow> js_error + star_obj" where
  "loadStarsByTopic ls = stars_of (loadJSON STARS_BY_TOPIC (JObj []) ls)"

text \<open>
  \<open>saveStarsByTopic\<close> copies the own properties, in the order of \<open>Object.keys\<close>, into a
  new object \<open>plain\<close>, each set spread into an array, and stores it; \<open>JSON.stringify\<close>
  lists the properties of \<open>plain\<close> in that same order. An own key \<open>__proto__\<close> of the
  map, which no assignment creates, would become the prototype of \<open>plain\<close> and not be
  stored.
\<close>

definition saveStarsByTopic :: "star_obj \<Rightarrow> local_storage \<Rightarrow> local_storage" where
  "saveStarsByTopic m ls =
     saveJSON STARS_BY_TOPIC
       (JObj (map (\<lambda>(k, s). (k, JArr s))
                (filter (\<lambda>(k, s). k \<noteq> ''__proto__'') (own_property_order (own m))))) ls"

subsection \<open>Array methods on a parsed value\<close>

text \<open>
  \<open>topics.includes(name)\<close>: on an array the search for the string with \<open>SameValueZero\<close>,
  on a string the substring test; any other value has no such method.
\<close>

definition js_includes :: "json \<Rightarrow> string \<Rightarrow> js_error + bool" where
  "js_includes v name =
     (case v of
        JArr xs \<Rightarrow> Inr (list_ex (\<lambda>y. same_value_zero y (JStr name)) xs)
      | JStr s \<Rightarrow> Inr (str_includes s name)
      | _ \<Rightarrow> Inl TypeError)"

text \<open>\<open>topics.push(x)\<close>: only an array has it.\<close>

definition js_push :: "json \<Rightarrow> json \<Rightarrow> js_error + json" where
  "js_push v x = (case v of JArr xs \<Rightarrow> Inr (JArr (xs @ [x])) | _ \<Rightarrow> Inl TypeError)"

fun truthy :: "json \<Rightarrow> bool" where
  "truthy JNull = False"
| "truthy (JBool b) = b"
| "truthy (JNum n) = (n \<noteq> 0)"
| "truthy (JStr s) = (s \<noteq> [])"
| "truthy (JArr xs) = True"
| "truthy (JObj kvs) = True"

text \<open>
  \<open>parsed.name\<close> for one of the names \<open>readLater\<close>, \<open>starsByTopic\<close>, \<open>topics\<close>, which no
  prototype holds: a member of an object, \<open>undefined\<close> (here \<open>None\<close>) on every other
  value.
\<close>

definition get_prop :: "json \<Rightarrow> string \<Rightarrow> json option" where
  "get_prop v name = (case v of JObj kvs \<Rightarrow> map_of (members kvs) name | _ \<Rightarrow> None)"

section \<open>The handlers that change the tag store\<close>


text \<open>
  The three statements of \<open>renameTopic\<close> on the stars:
  \<open>sbt[newName] = sbt[oldName] || new Set(); delete sbt[oldName]; saveStarsByTopic(sbt);\<close>.
  When \<open>sbt[oldName]\<close> reads an inherited member, that member is what is assigned: under
  \<open>__proto__\<close> it becomes the prototype and the own properties are saved; under the name
  \<open>oldName\<close> itself the property is created and deleted again; under any other name it
  stays, and \<open>saveStarsByTopic\<close> raises a \<open>TypeError\<close> when it spreads it.
\<close>

definition rename_stars :: "string \<Rightarrow> string \<Rightarrow> star_obj \<Rightarrow> local_storage \<Rightarrow> local_storage" where
  "rename_stars oldName newName sbt ls =
     (case obj_get sbt oldName of
        Inl e \<Rightarrow> ls
      | Inr v \<Rightarrow>
          (case v of
             Inherited \<Rightarrow>
               if map_of (own sbt) newName = None \<and> newName = ''__proto__''
               then saveStarsByTopic (obj_delete sbt oldName) ls
               else if map_of (own sbt) newName = None \<and> newName = ''size''
                       \<and> proto sbt \<noteq> ObjectPrototype
               then ls
               else if newName = oldName then saveStarsByTopic sbt ls
               else ls
           | Undefined \<Rightarrow>
               (case obj_set sbt newName [] of
                  Inl e \<Rightarrow> ls
                | Inr sbt \<Rightarrow> saveStarsByTopic (obj_delete sbt oldName) ls)
           | ASet s \<Rightarrow>
               (case obj_set sbt newName s of
                  Inl e \<Rightarrow> ls
                | Inr sbt \<Rightarrow> saveStarsByTopic (obj_delete sbt oldName) ls)))"

text \<open>
  \<open>renameTopic\<close> and \<open>deleteTopic\<close> read \<open>topics.length\<close> and call \<open>topics.join\<close> before
  they write: stored topics that are not an array end them there, with the alert or a
  \<open>TypeError\<close>. \<open>t===oldName\<close> holds for the string \<open>oldName\<close> only. The new name is
  refused when it is a topic already and differs from the old name; the old name itself,
  which the prompt proposes, is let through.
\<close>

definition renameTopic ::
  "string option \<Rightarrow> string option \<Rightarrow> local_storage \<Rightarrow> local_storage" where
  "renameTopic oldAnswer newAnswer ls =
     (case loadTopics ls of
        JArr topics \<Rightarrow>
          if length topics = 0 then ls
          else (case oldAnswer of
                  None \<Rightarrow> ls
                | Some oldName \<Rightarrow>
                    if oldName = [] \<or> \<not> list_ex (\<lambda>y. same_value_zero y (JStr oldName)) topics then ls
                    else (case newAnswer of
                            None \<Rightarrow> ls
                          | Some newName \<Rightarrow>
                              if newName = [] then ls
                              else if list_ex (\<lambda>y. same_value_zero y (JStr newName)) topics
                                      \<and> newName \<noteq> oldName then ls
                              else
                                let newTopics =
                                      map (\<lambda>t. if t = JStr oldName then JStr newName else t) topics;
                                    ls = saveTopics (JArr newTopics) ls
                                in (case loadStarsByTopic ls of
                                      Inl e \<Rightarrow> ls
                                    | Inr sbt \<Rightarrow> rename_stars oldName newName sbt ls)))
      | _ \<Rightarrow> ls)"






text \<open>\<open>exportReadLater\<close>: the text handed to \<open>download\<close>.\<close>

definition exportReadLater :: "local_storage \<Rightarrow> js_error + js_text" where
  "exportReadLater ls =
     (case loadReadLater ls of
        Inl e \<Rightarrow> Inl e
      | Inr rl \<Rightarrow> Inr (JSON_stringify (JArr rl)))"

text \<open>
  \<open>importJSONFile\<close>: the whole of \<open>reader.onload\<close> runs inside \<open>try\<close>, so an exception
  ends it with an alert and leaves what was written before. \<open>kind\<close> is the answer to the
  prompt for the destination, asked for an array only.
\<close>

text \<open>\<open>if(!topics.includes(kind)){ topics.push(kind); saveTopics(topics); }\<close>\<close>

definition ensure_topic :: "string \<Rightarrow> local_storage \<Rightarrow> js_error + local_storage" where
  "ensure_topic kind ls =
     (let topics = loadTopics ls
      in case js_includes topics kind of
           Inl e \<Rightarrow> Inl e
         | Inr found \<Rightarrow>
             if \<not> found
             then (case js_push topics (JStr kind) of
                     Inl e \<Rightarrow> Inl e
                   | Inr topics \<Rightarrow> Inr (saveTopics topics ls))
             else Inr ls)"

text \<open>
  The loop \<open>for(const id of parsed) sbt[kind].add(id)\<close> reads \<open>sbt[kind]\<close> only when
  the array has an element.
\<close>

definition import_array :: "json list \<Rightarrow> string option \<Rightarrow> local_storage \<Rightarrow> local_storage" where
  "import_array parsed answer ls =
     (case answer of
        None \<Rightarrow> ls
      | Some kind \<Rightarrow>
          if kind = [] then ls
          else if kind = ''read_later'' then
            (case loadReadLater ls of
               Inl e \<Rightarrow> ls
             | Inr s \<Rightarrow> saveReadLater (fold (\<lambda>x s. set_add s x) parsed s) ls)
          else
            (case ensure_topic kind ls of
               Inl e \<Rightarrow> ls
             | Inr ls \<Rightarrow>
                 (case loadStarsByTopic ls of
                    Inl e \<Rightarrow> ls
                  | Inr sbt \<Rightarrow>
                      (case ensure_set sbt kind of
                         Inl e \<Rightarrow> ls
                       | Inr sbt \<Rightarrow>
                           (case (if parsed = [] then Inr sbt
                                  else obj_update_set sbt kind (fold (\<lambda>x s. set_add s x) parsed)) of
                              Inl e \<Rightarrow> ls
                            | Inr sbt \<Rightarrow> saveStarsByTopic sbt ls)))))"

text \<open>
  The test \<open>parsed && parsed.readLater && parsed.starsByTopic && parsed.topics\<close>; a
  property that is \<open>undefined\<close> is falsy.
\<close>

definition truthy_prop :: "json option \<Rightarrow> bool" where
  "truthy_prop v = (case v of None \<Rightarrow> False | Some x \<Rightarrow> truthy x)"

definition is_payload :: "json \<Rightarrow> bool" where
  "is_payload parsed =
     (truthy parsed \<and> truthy_prop (get_prop parsed ''readLater'') \<and>
      truthy_prop (get_prop parsed ''starsByTopic'') \<and> truthy_prop (get_prop parsed ''topics''))"

definition import_payload :: "json \<Rightarrow> local_storage \<Rightarrow> local_storage" where
  "import_payload parsed ls =
     (if \<not> is_payload parsed then ls
      else
        (case (get_prop parsed ''readLater'', get_prop parsed ''starsByTopic'',
               get_prop parsed ''topics'') of
           (Some readLater, Some starsByTopic, Some topics) \<Rightarrow>
             (case new_Set readLater of
                Inl e \<Rightarrow> ls
              | Inr s \<Rightarrow>
                  let ls = saveReadLater s ls;
                      ls = saveTopics topics ls
                  in (case stars_of starsByTopic of
                        Inl e \<Rightarrow> ls
                      | Inr m \<Rightarrow> saveStarsByTopic m ls))
         | _ \<Rightarrow> ls))"

definition importJSONFile :: "js_text \<Rightarrow> string option \<Rightarrow> local_storage \<Rightarrow> local_storage" where
  "importJSONFile file answer ls =
     (case JSON_parse file of
        Inl e \<Rightarrow> ls
      | Inr parsed \<Rightarrow>
          (case parsed of
             JArr ids \<Rightarrow> import_array ids answer ls
           | _ \<Rightarrow> import_payload parsed ls))"

section \<open>Runs of the tag store\<close>

text \<open>
  Own properties as the handlers keep them: one entry per key, every entry a proper
  set, and no own key \<open>__proto__\<close>.
\<close>

definition wf_stars :: "(string \<times> js_set) list \<Rightarrow> bool" where
  "wf_stars m =
     (distinct (map fst m) \<and> list_all (\<lambda>(k, s). set_ok s) m \<and> ''__proto__'' \<notin> set (map fst m))"

text \<open>\<open>Object.keys\<close> of a star map, as a set.\<close>

definition star_keys :: "(string \<times> js_set) list \<Rightarrow> string set" where
  "star_keys m = fst ` set m"









subsection \<open>Example inputs\<close>

definition paper_deep :: paper where
  "paper_deep =
     \<lparr>pid = None, link = None, title = Some ''Deep'', summary = Some ''Learning'',
      category = Some [''cs.AI'', ''cs.CL''], published = None, date = ''2024-01-01''\<rparr>"

definition terms_quoted :: "string list" where
  "terms_quoted = [CHR 0x22 # ''eP l'' @ [CHR 0x22] @ ''   '', ''  LEARN'']"

definition paper_on :: "string \<Rightarrow> string \<Rightarrow> paper" where
  "paper_on t d = \<lparr>pid = None, link = None, title = Some t, summary = None,
      category = None, published = None, date = d\<rparr>"

definition iso_example :: "int \<Rightarrow> string" where
  "iso_example i =
     (if i = 0 then ''2024-01-03'' else if i = 1 then ''2024-01-02'' else ''2024-01-01'')"

definition net_example :: "string \<Rightarrow> response" where
  "net_example url =
     (if url = ''paper_json/2024-01-03.json''
        then Response 200 (Some (Papers [paper_on ''a'' []]))
      else if url = ''paper_json/2024-01-01.json''
        then Response 200 (Some (Papers [paper_on ''a'' [], paper_on ''b'' []]))
      else Response 404 None)"

definition storage_rl :: local_storage where
  "storage_rl = saveReadLater [JStr ''p1'', JStr ''p2''] empty_storage"

definition payload_example :: json where
  "payload_example =
     JObj [(''readLater'', JArr [JStr ''new'']),
           (''topics'', JArr [JStr ''t'']),
           (''starsByTopic'', JObj [(''t'', JArr [JStr ''new''])])]"

definition storage_topics :: local_storage where
  "storage_topics =
     saveStarsByTopic (StarObj [(''t1'', [JStr ''p1'', JStr ''p2'']), (''t2'', [])] ObjectPrototype)
       (saveTopics (JArr [JStr ''t1'', JStr ''t2'']) empty_storage)"

definition storage_full :: local_storage where
  "storage_full = saveReadLater [JStr ''p1'', JStr ''p2''] storage_topics"




section \<open>Properties of the filter predicates\<close>

lemma str_includes_sublist: "str_includes hay needle \<longleftrightarrow> sublist needle hay"
proof (induction hay)
  case Nil
  then show ?case by simp
next
  case (Cons h hay)
  then show ?case by (simp add: sublist_Cons_right)
qed

lemma nat_int_pred: "nat (int n - 1) = n - 1"
  by arith

lemma slice_strip:
  "t \<noteq> [] \<Longrightarrow> slice t 1 (- 1) = butlast (tl t)"
  by (cases t) (auto simp: slice_def Let_def butlast_conv_take min_def max_def nat_int_pred)

lemma quoted_iff:
  "t \<noteq> [] \<Longrightarrow>
   (startsWith t [CHR 0x22] \<and> endsWith t [CHR 0x22]) \<longleftrightarrow> (hd t = CHR 0x22 \<and> last t = CHR 0x22)"
  by (cases t; cases "rev t") (auto simp: startsWith_def endsWith_def last_rev hd_rev [symmetric])

lemma term_found_sublist:
  "term_found hay t \<longleftrightarrow> sublist (toLowerCase (strip_quotes (trim t))) hay"
proof (cases "trim t = []")
  case True
  then show ?thesis by (simp add: term_found_def strip_quotes_def toLowerCase_def)
next
  case False
  then show ?thesis
    by (simp add: term_found_def Let_def quoted_iff slice_strip strip_quotes_def normalize_str_def
        str_includes_sublist)
qed

lemmas filter_eval =
  paper_deep_def terms_quoted_def textMatches_def term_found_def normalize_str_def toLowerCase_def
  trim_def is_space_def startsWith_def endsWith_def slice_def strip_quotes_def haystack_def

text \<open>
  C1, as stated, fails: the code searches the title, one space and the summary, so the
  term \<open>deep learning\<close> is found for the title \<open>Deep\<close> and the summary \<open>Learning\<close>,
  although it is no substring of the two concatenated.
\<close>

theorem textMatches_counterexample:
  "textMatches paper_deep [''deep learning''] False \<and>
   \<not> spec_textMatches paper_deep [''deep learning''] False"
  by (simp add: filter_eval spec_textMatches_def str_includes_sublist [symmetric])

text \<open>
  C1, amended: an empty term list matches; otherwise a paper matches exactly when every
  term, trimmed of surrounding white space, stripped of its surrounding double quotes and
  lower-cased, is a substring of the lower-cased title (title only) or of the lower-cased
  title, one space and the lower-cased summary. A term that is blank after trimming is
  a substring of everything.
\<close>

theorem textMatches_amended:
  "(T = [] \<longrightarrow> textMatches p T b) \<and>
   (textMatches p T b \<longleftrightarrow>
      (\<forall>t \<in> set T. sublist (toLowerCase (strip_quotes (trim t))) (haystack p b)))"
  by (simp add: textMatches_def haystack_def Let_def list_all_iff term_found_sublist)

theorem textMatches_amended_witness:
  "textMatches paper_deep terms_quoted False \<and>
   sublist (toLowerCase (strip_quotes (trim (terms_quoted ! 0)))) (haystack paper_deep False) \<and>
   sublist (toLowerCase (strip_quotes (trim (terms_quoted ! 1)))) (haystack paper_deep False)"
  using textMatches_amended [of terms_quoted paper_deep False]
  by (simp add: filter_eval)

text \<open>
  C6: with an empty allowed set every paper is accepted; with a non-empty one a paper is
  accepted exactly when one of its categories is in the allowed set.
\<close>

theorem categoryMatches_spec:
  "categoryMatches p A \<longleftrightarrow>
     (set A = {} \<or> set (case category p of Some cs \<Rightarrow> cs | None \<Rightarrow> []) \<inter> set A \<noteq> {})"
  by (auto simp: categoryMatches_def list_ex_iff)

theorem categoryMatches_spec_witness:
  "categoryMatches paper_deep [''cs.CL''] \<and> set [''cs.CL''] \<noteq> {} \<and>
   set (case category paper_deep of Some cs \<Rightarrow> cs | None \<Rightarrow> []) \<inter> set [''cs.CL''] \<noteq> {}"
  using categoryMatches_spec [of paper_deep "[''cs.CL'']"]
  by (simp add: paper_deep_def)

section \<open>Properties of the grouping\<close>

lemma map_of_Some_fst: "map_of m k = Some v \<Longrightarrow> k \<in> fst ` set m"
  by (metis domI dom_map_of_conv_image_fst)

lemma filter_other_date: "d \<notin> date ` set seen \<Longrightarrow> filter (\<lambda>p. date p = d) seen = []"
  by (auto simp: filter_empty_conv)

lemma map_of_group_step:
  "map_of (group_step p m) d =
     (if d = date p then Some ((case map_of m (date p) of Some xs \<Rightarrow> xs | None \<Rightarrow> []) @ [p])
      else map_of m d)"
  by (auto simp: group_step_def map_has_def map_set_def map_get_def update_conv'
      map_of_eq_None_iff split: option.splits dest: map_of_Some_fst)

lemma distinct_group_step:
  "distinct (map fst m) \<Longrightarrow> distinct (map fst (group_step p m))"
  by (auto simp: group_step_def map_has_def map_set_def map_get_def Let_def distinct_update
      split: option.splits)

lemma grouped_step: "grouped m seen \<Longrightarrow> grouped (group_step p m) (seen @ [p])"
  unfolding grouped_def
  by (auto simp: map_of_group_step distinct_group_step filter_other_date)

lemma grouped_fold: "grouped m seen \<Longrightarrow> grouped (fold group_step ps m) (seen @ ps)"
proof (induction ps arbitrary: m seen)
  case Nil
  then show ?case by simp
next
  case (Cons p ps)
  from grouped_step [OF Cons.prems] have "grouped (group_step p m) (seen @ [p])" .
  from Cons.IH [OF this] show ?case by simp
qed

lemma set_insert_by: "set (insert_by cmp x ys) = insert x (set ys)"
  by (induction ys) auto

lemma set_js_sort: "set (js_sort cmp xs) = set xs"
  by (induction xs) (auto simp: js_sort_def set_insert_by)

lemma sorted_insert_by:
  "sorted_wrt (\<lambda>a b. fst b < fst a) ys \<Longrightarrow> fst x \<notin> fst ` set ys \<Longrightarrow>
   sorted_wrt (\<lambda>a b. fst b < fst a) (insert_by date_desc x ys)"
proof (induction ys)
  case Nil
  then show ?case by simp
next
  case (Cons y ys)
  then show ?case
    by (auto simp: date_desc_def set_insert_by)
qed

lemma sorted_js_sort:
  "distinct (map fst xs) \<Longrightarrow> sorted_wrt (\<lambda>a b. fst b < fst a) (js_sort date_desc xs)"
proof (induction xs)
  case Nil
  then show ?case by (simp add: js_sort_def)
next
  case (Cons x xs)
  then have "sorted_wrt (\<lambda>a b. fst b < fst a) (js_sort date_desc xs)" by simp
  moreover have "fst x \<notin> fst ` set (js_sort date_desc xs)"
    using Cons.prems by (simp add: set_js_sort)
  ultimately show ?case
    using sorted_insert_by [of "js_sort date_desc xs" x] by (simp add: js_sort_def)
qed

lemma mset_insert_by: "mset (insert_by cmp x ys) = add_mset x (mset ys)"
  by (induction ys) auto

lemma mset_js_sort: "mset (js_sort cmp xs) = mset xs"
  by (induction xs) (auto simp: js_sort_def mset_insert_by)

text \<open>
  C9: the groups returned by \<open>groupByDate\<close> are in strictly descending order of their
  date strings, their dates are exactly the dates of the papers, and each group holds
  exactly the papers of its date, in their order in the input.
\<close>

theorem groupByDate_spec:
  "sorted_wrt (\<lambda>a b. fst b < fst a) (groupByDate ps) \<and>
   fst ` set (groupByDate ps) = date ` set ps \<and>
   (\<forall>(d, items) \<in> set (groupByDate ps). items = filter (\<lambda>p. date p = d) ps)"
proof -
  let ?m = "fold group_step ps []"
  have "grouped [] []" by (simp add: grouped_def)
  from grouped_fold [OF this, of ps] have g: "grouped ?m ps" by simp
  then have d: "distinct (map fst ?m)" by (simp add: grouped_def)
  have m: "map_of ?m d = (if d \<in> date ` set ps then Some (filter (\<lambda>p. date p = d) ps) else None)" for d
    using g by (simp add: grouped_def)
  have 1: "sorted_wrt (\<lambda>a b. fst b < fst a) (groupByDate ps)"
    using d by (simp add: groupByDate_def sorted_js_sort)
  have 2: "fst ` set (groupByDate ps) = date ` set ps"
  proof -
    have "fst ` set ?m = dom (map_of ?m)" by (simp add: dom_map_of_conv_image_fst)
    also have "\<dots> = date ` set ps" using m by (auto simp: dom_def)
    finally show ?thesis by (simp add: groupByDate_def set_js_sort)
  qed
  have 3: "items = filter (\<lambda>p. date p = d) ps" if "(d, items) \<in> set (groupByDate ps)" for d items
  proof -
    from that have "(d, items) \<in> set ?m" by (simp add: groupByDate_def set_js_sort)
    with d have "map_of ?m d = Some items" by simp
    with m [of d] show ?thesis by (simp split: if_splits)
  qed
  from 1 2 3 show ?thesis by auto
qed

theorem groupByDate_spec_witness:
  "groupByDate [paper_on ''a'' ''2024-01-01'', paper_on ''b'' ''2024-01-02'', paper_on ''c'' ''2024-01-01'']
     = [(''2024-01-02'', [paper_on ''b'' ''2024-01-02'']),
        (''2024-01-01'', [paper_on ''a'' ''2024-01-01'', paper_on ''c'' ''2024-01-01''])] \<and>
   sorted_wrt (\<lambda>a b. fst b < fst a)
     (groupByDate [paper_on ''a'' ''2024-01-01'', paper_on ''b'' ''2024-01-02'', paper_on ''c'' ''2024-01-01''])"
  using groupByDate_spec [of "[paper_on ''a'' ''2024-01-01'', paper_on ''b'' ''2024-01-02'', paper_on ''c'' ''2024-01-01'']"]
  by (simp add: groupByDate_def js_sort_def group_step_def map_has_def map_set_def map_get_def
      date_desc_def paper_on_def)

section \<open>Properties of the loader\<close>

lemma loadDays_loop_eq:
  "loadDays_loop net isoDate nDays i tasks =
     tasks @ map (\<lambda>j. fetchDay net (isoDate j)) [i..nDays - 1]"
proof (induction net isoDate nDays i tasks rule: loadDays_loop.induct)
  case (1 net isoDate nDays i tasks)
  show ?case
  proof (cases "i < nDays")
    case True
    then have "[i..nDays - 1] = i # [i + 1..nDays - 1]" by (simp add: upto_rec1)
    with True "1.IH" show ?thesis
      by (simp add: loadDays_loop.simps [of net isoDate nDays i tasks])
  next
    case False
    then show ?thesis
      by (simp add: loadDays_loop.simps [of net isoDate nDays i tasks])
  qed
qed

lemma fetchDay_failed: "day_failed (net (day_url d)) \<Longrightarrow> fetchDay net d = []"
  by (auto simp: fetchDay_def day_failed_def split: response.splits option.splits payload.splits)

lemma fetchDay_papers:
  "net (day_url d) = Response status (Some (Papers ps)) \<Longrightarrow> ok status \<Longrightarrow>
   fetchDay net d = map (\<lambda>p. p\<lparr>date := d\<rparr>) ps"
  by (simp add: fetchDay_def)

text \<open>
  C3: \<open>loadDays\<close> returns the concatenation, in order, of what \<open>fetchDay\<close> returns for
  each of the requested days; a day that fails contributes the empty list and a day with
  an array payload contributes every paper of the array, tagged with the date; nothing is
  removed, so the length of the result is the sum of the lengths of the days.
\<close>

theorem loadDays_spec:
  "loadDays net isoDate n = concat (map (\<lambda>j. fetchDay net (isoDate j)) [0..n - 1]) \<and>
   (\<forall>d. day_failed (net (day_url d)) \<longrightarrow> fetchDay net d = []) \<and>
   (\<forall>d status ps. net (day_url d) = Response status (Some (Papers ps)) \<and> ok status \<longrightarrow>
      fetchDay net d = map (\<lambda>p. p\<lparr>date := d\<rparr>) ps) \<and>
   length (loadDays net isoDate n) = (\<Sum>j\<leftarrow>[0..n - 1]. length (fetchDay net (isoDate j)))"
  by (simp add: loadDays_def loadDays_loop_eq fetchDay_failed fetchDay_papers length_concat comp_def)

theorem loadDays_spec_witness:
  "loadDays net_example iso_example 3 =
     [paper_on ''a'' ''2024-01-03'', paper_on ''a'' ''2024-01-01'', paper_on ''b'' ''2024-01-01''] \<and>
   day_failed (net_example (day_url ''2024-01-02'')) \<and>
   fetchDay net_example ''2024-01-02'' = [] \<and>
   net_example (day_url ''2024-01-01'') =
     Response 200 (Some (Papers [paper_on ''a'' [], paper_on ''b'' []])) \<and>
   ok 200 \<and>
   fetchDay net_example ''2024-01-01'' = [paper_on ''a'' ''2024-01-01'', paper_on ''b'' ''2024-01-01'']"
  using loadDays_spec [of net_example iso_example 3]
  by (simp add: loadDays_def loadDays_loop.simps fetchDay_def net_example_def iso_example_def
      day_url_def day_failed_def ok_def paper_on_def)

section \<open>Properties of the term extraction\<close>


lemma match_here_Nil: "match_here [] = None"
  by (simp add: match_here_def)

























section \<open>Properties of the tag store\<close>

lemma set_ok_snoc: "set_ok (s @ [x]) \<longleftrightarrow> set_ok s \<and> \<not> set_has s x"
  by (induction s) (auto simp: set_has_def)

lemma set_ok_add: "set_ok s \<Longrightarrow> set_ok (set_add s x)"
  by (simp add: set_add_def set_ok_snoc)

lemma set_ok_fold_add: "set_ok acc \<Longrightarrow> set_ok (fold (\<lambda>x s. set_add s x) xs acc)"
  by (induction xs arbitrary: acc) (simp_all add: set_ok_add)

lemma set_ok_append_has: "set_ok (acc @ x # rest) \<Longrightarrow> \<not> set_has acc x"
  by (induction acc) (auto simp: set_has_def)

lemma fold_add_ok: "set_ok (acc @ xs) \<Longrightarrow> fold (\<lambda>x s. set_add s x) xs acc = acc @ xs"
proof (induction xs arbitrary: acc)
  case Nil
  then show ?case by simp
next
  case (Cons x xs)
  from Cons.prems have "\<not> set_has acc x" by (rule set_ok_append_has)
  then have "set_add acc x = acc @ [x]" by (simp add: set_add_def)
  moreover from Cons.prems have "set_ok ((acc @ [x]) @ xs)" by simp
  ultimately show ?case using Cons.IH [of "acc @ [x]"] by simp
qed



lemma new_Set_ok: "new_Set v = Inr s \<Longrightarrow> set_ok s"
  by (auto simp: new_Set_def set_ok_fold_add split: json.splits)

lemma new_Set_JArr: "set_ok s \<Longrightarrow> new_Set (JArr s) = Inr s"
  using fold_add_ok [of "[]" s] by (simp add: new_Set_def)

lemma loadJSON_saveJSON: "loadJSON k d (saveJSON k' v ls) = (if k = k' then v else loadJSON k d ls)"
  by (simp add: loadJSON_def saveJSON_def JSON_parse_def JSON_stringify_def)

lemma loadReadLater_save: "set_ok s \<Longrightarrow> loadReadLater (saveReadLater s ls) = Inr s"
  by (simp add: loadReadLater_def saveReadLater_def loadJSON_saveJSON new_Set_JArr)

text \<open>
  C10, as stated, fails: a stored text that is JSON but not iterable makes a load throw;
  the number \<open>5\<close> under the read-later key and \<open>null\<close> under the stars key do.
\<close>

theorem load_counterexample:
  "loadReadLater (empty_storage(READ_LATER := Some (Json (JNum 5)))) = Inl TypeError \<and>
   loadStarsByTopic (empty_storage(STARS_BY_TOPIC := Some (Json JNull))) = Inl TypeError"
  by (simp add: loadReadLater_def loadStarsByTopic_def loadJSON_def JSON_parse_def new_Set_def
      stars_of_def own_entries_def empty_storage_def)

text \<open>
  C10, amended: when the item under a key is missing or is not JSON, the load of that key
  returns the fallback without an error: the empty set for read-later, the empty list for
  the topics, the empty map for the stars.
\<close>

theorem load_fallback:
  "(ls READ_LATER = None \<or> ls READ_LATER = Some Unparsable \<longrightarrow> loadReadLater ls = Inr []) \<and>
   (ls TOPICS = None \<or> ls TOPICS = Some Unparsable \<longrightarrow> loadTopics ls = JArr []) \<and>
   (ls STARS_BY_TOPIC = None \<or> ls STARS_BY_TOPIC = Some Unparsable \<longrightarrow>
      loadStarsByTopic ls = Inr (StarObj [] ObjectPrototype))"
  by (auto simp: loadReadLater_def loadTopics_def loadStarsByTopic_def loadJSON_def JSON_parse_def
      new_Set_def stars_of_def own_entries_def members_def empty_obj_def own_property_order_def)

theorem load_fallback_witness:
  "empty_storage READ_LATER = None \<and> loadReadLater empty_storage = Inr [] \<and>
   (empty_storage(TOPICS := Some Unparsable)) TOPICS = Some Unparsable \<and>
   loadTopics (empty_storage(TOPICS := Some Unparsable)) = JArr [] \<and>
   empty_storage STARS_BY_TOPIC = None \<and>
   loadStarsByTopic empty_storage = Inr (StarObj [] ObjectPrototype)"
  using load_fallback [of empty_storage] load_fallback [of "empty_storage(TOPICS := Some Unparsable)"]
  by (simp add: empty_storage_def)

text \<open>
  C4: the file that \<open>exportReadLater\<close> writes, imported as an array with the destination
  \<open>read_later\<close> into an empty storage, leaves the read-later set of the exporting storage.
\<close>

theorem export_import_roundtrip:
  "exportReadLater ls = Inr file \<Longrightarrow>
   loadReadLater (importJSONFile file (Some ''read_later'') empty_storage) = loadReadLater ls"
proof -
  assume ex: "exportReadLater ls = Inr file"
  then obtain rl where rl: "loadReadLater ls = Inr rl" and f: "file = Json (JArr rl)"
    by (auto simp: exportReadLater_def JSON_stringify_def split: sum.splits)
  from rl have ok: "set_ok rl" by (auto simp: loadReadLater_def dest: new_Set_ok)
  have e: "loadReadLater empty_storage = Inr []"
    by (simp add: loadReadLater_def loadJSON_def empty_storage_def new_Set_def)
  have "importJSONFile file (Some ''read_later'') empty_storage = saveReadLater rl empty_storage"
    using fold_add_ok [of "[]" rl] ok
    by (simp add: importJSONFile_def f JSON_parse_def import_array_def e)
  then show ?thesis
    by (simp add: rl loadReadLater_save ok)
qed

theorem export_import_roundtrip_witness:
  "exportReadLater storage_rl = Inr (Json (JArr [JStr ''p1'', JStr ''p2''])) \<and>
   loadReadLater (importJSONFile (Json (JArr [JStr ''p1'', JStr ''p2''])) (Some ''read_later'')
     empty_storage) = Inr [JStr ''p1'', JStr ''p2'']"
  using export_import_roundtrip [of storage_rl "Json (JArr [JStr ''p1'', JStr ''p2''])"]
  by (simp add: storage_rl_def exportReadLater_def loadReadLater_def saveReadLater_def
      loadJSON_saveJSON new_Set_def set_add_def set_has_def same_value_zero_def JSON_stringify_def)

subsection \<open>The object of the stars\<close>

lemma update_new: "k \<notin> fst ` set al \<Longrightarrow> AList.update k v al = al @ [(k, v)]"
  by (induction al) auto

lemma set_update_subset: "set (AList.update k v al) \<subseteq> insert (k, v) (set al)"
  by (induction al) auto

lemma keys_update: "star_keys (AList.update k v m) = insert k (star_keys m)"
  by (simp add: star_keys_def dom_update)

lemma keys_delete: "star_keys (AList.delete k m) = star_keys m - {k}"
  unfolding star_keys_def using delete_keys [of k m] by (metis list.set_map set_removeAll)


lemma keys_lookup: "map_of m k = Some v \<Longrightarrow> k \<in> star_keys m"
  unfolding star_keys_def by (rule map_of_Some_fst)


lemma wf_stars_update:
  "wf_stars m \<Longrightarrow> set_ok s \<Longrightarrow> k \<noteq> ''__proto__'' \<Longrightarrow> wf_stars (AList.update k s m)"
  using set_update_subset [of k s m] keys_update [of k s m]
  by (auto simp: wf_stars_def distinct_update list_all_iff star_keys_def)

lemma wf_stars_key: "wf_stars m \<Longrightarrow> k \<in> star_keys m \<Longrightarrow> k \<noteq> ''__proto__''"
  by (force simp: wf_stars_def star_keys_def)

lemma set_delete_subset: "set (AList.delete k al) \<subseteq> set al"
  by (auto simp: AList.delete_eq)

lemma wf_stars_delete: "wf_stars m \<Longrightarrow> wf_stars (AList.delete k m)"
  using set_delete_subset [of k m] keys_delete [of k m]
  by (auto simp: wf_stars_def distinct_delete list_all_iff star_keys_def)

lemma wf_stars_lookup: "wf_stars m \<Longrightarrow> map_of m k = Some s \<Longrightarrow> set_ok s"
  by (auto simp: wf_stars_def list_all_iff dest: map_of_SomeD)


lemma obj_set_wf:
  assumes "wf_stars (own obj)" and "set_ok s" and "obj_set obj k s = Inr obj'"
  shows "wf_stars (own obj')"
proof (cases "map_of (own obj) k")
  case None
  with assms show ?thesis
    by (auto simp: obj_set_def wf_stars_update split: if_splits)
next
  case (Some v)
  then have "k \<in> star_keys (own obj)" by (rule keys_lookup)
  with assms(1) have "k \<noteq> ''__proto__''" by (rule wf_stars_key)
  with assms Some show ?thesis by (auto simp: obj_set_def wf_stars_update)
qed

lemma stars_loop_wf: "wf_stars (own out) \<Longrightarrow> stars_loop es out = Inr r \<Longrightarrow> wf_stars (own r)"
proof (induction es arbitrary: out)
  case Nil
  then show ?case by simp
next
  case (Cons e es)
  obtain k v where e: "e = (k, v)" by (cases e)
  from Cons.prems(2) e obtain s out' where s: "new_Set v = Inr s"
    and o: "obj_set out k s = Inr out'"
    and rest: "stars_loop es out' = Inr r"
    by (auto split: sum.splits)
  from s have "set_ok s" by (rule new_Set_ok)
  with Cons.prems(1) have "wf_stars (own out')" using o by (rule obj_set_wf)
  from Cons.IH [OF this rest] show ?case .
qed

lemma stars_of_wf: "stars_of v = Inr r \<Longrightarrow> wf_stars (own r)"
  using stars_loop_wf [of empty_obj]
  by (auto simp: stars_of_def wf_stars_def empty_obj_def split: sum.splits)

lemma loadStarsByTopic_wf: "loadStarsByTopic ls = Inr r \<Longrightarrow> wf_stars (own r)"
  by (auto simp: loadStarsByTopic_def dest: stars_of_wf)

lemma obj_set_plain:
  "obj_set (StarObj m ObjectPrototype) k s =
     Inr (if map_of m k = None \<and> k = ''__proto__'' then StarObj m (SetInstance s)
          else StarObj (AList.update k s m) ObjectPrototype)"
  by (simp add: obj_set_def)

lemma obj_get_plain:
  "obj_get (StarObj m ObjectPrototype) k =
     Inr (case map_of m k of
            Some s \<Rightarrow> ASet s
          | None \<Rightarrow> if k \<in> set object_prototype_names then Inherited else Undefined)"
  by (simp add: obj_get_def split: option.splits)




lemma fold_update_distinct:
  "distinct (map fst (acc @ kvs)) \<Longrightarrow> fold (\<lambda>(k, v). AList.update k v) kvs acc = acc @ kvs"
proof (induction kvs arbitrary: acc)
  case Nil
  then show ?case by simp
next
  case (Cons e kvs)
  obtain k v where e: "e = (k, v)" by (cases e)
  from Cons.prems e have new: "k \<notin> fst ` set acc" by auto
  from Cons.prems have "distinct (map fst ((acc @ [e]) @ kvs))" by simp
  from Cons.IH [OF this] show ?case by (simp add: e update_new [OF new])
qed

lemma members_distinct: "distinct (map fst kvs) \<Longrightarrow> members kvs = kvs"
  using fold_update_distinct [of "[]" kvs] by (simp add: members_def)

lemma stars_loop_enc:
  "wf_stars (out @ m) \<Longrightarrow>
   stars_loop (map (\<lambda>(k, s). (k, JArr s)) m) (StarObj out ObjectPrototype) =
     Inr (StarObj (out @ m) ObjectPrototype)"
proof (induction m arbitrary: out)
  case Nil
  then show ?case by simp
next
  case (Cons e m)
  obtain k s where e: "e = (k, s)" by (cases e)
  from Cons.prems e have ok: "set_ok s" and new: "k \<notin> fst ` set out" and np: "k \<noteq> ''__proto__''"
    by (auto simp: wf_stars_def)
  from Cons.prems e have "wf_stars ((out @ [(k, s)]) @ m)" by simp
  from Cons.IH [OF this] show ?case
    by (simp add: e new_Set_JArr [OF ok] update_new [OF new] obj_set_plain np)
qed

lemma own_property_order_set: "set (own_property_order m) = set m"
  by (auto simp: own_property_order_def)

lemma own_property_order_mset: "mset (own_property_order m) = mset m"
  by (simp add: own_property_order_def)

lemma own_property_order_distinct:
  "distinct (map fst (own_property_order m)) \<longleftrightarrow> distinct (map fst m)"
proof -
  have "mset (map fst (own_property_order m)) = mset (map fst m)"
    by (simp only: mset_map own_property_order_mset)
  then show ?thesis by (rule mset_eq_imp_distinct_iff)
qed

lemma wf_stars_order: "wf_stars m \<Longrightarrow> wf_stars (own_property_order m)"
  by (simp add: wf_stars_def own_property_order_distinct list_all_iff own_property_order_set)


lemma insort_key_map:
  "insort_key f (h x) (map h ys) = map h (insort_key (\<lambda>a. f (h a)) x ys)"
  by (induction ys) simp_all

lemma sort_key_map: "sort_key f (map h xs) = map h (sort_key (\<lambda>a. f (h a)) xs)"
  by (induction xs) (simp_all add: insort_key_map)

lemma own_property_order_map:
  "own_property_order (map (\<lambda>(k, s). (k, g s)) m) = map (\<lambda>(k, s). (k, g s)) (own_property_order m)"
proof -
  let ?h = "\<lambda>(k, s). (k, g s)"
  have 1: "(\<lambda>(k, v). is_index k) \<circ> ?h = (\<lambda>(k, v). is_index k)" by auto
  have 2: "(\<lambda>(k, v). \<not> is_index k) \<circ> ?h = (\<lambda>(k, v). \<not> is_index k)" by auto
  have 3: "(\<lambda>a. (\<lambda>(k, v). index_value k) (?h a)) = (\<lambda>(k, v). index_value k)" by auto
  show ?thesis
    unfolding own_property_order_def by (simp only: filter_map sort_key_map map_append 1 2 3)
qed

lemma own_property_order_idem:
  "own_property_order (own_property_order m) = own_property_order m"
proof -
  let ?P = "\<lambda>(k, v). is_index k" and ?f = "\<lambda>(k, v). index_value k"
  let ?N = "\<lambda>(k, v). \<not> is_index k"
  let ?A = "sort_key ?f (filter ?P m)" and ?B = "filter ?N m"
  have a1: "filter ?P ?A = ?A" by (rule filter_True) auto
  have a2: "filter ?N ?A = []" by (auto simp: filter_empty_conv)
  have b1: "filter ?P ?B = []" by (auto simp: filter_empty_conv)
  have b2: "filter ?N ?B = ?B" by (rule filter_True) auto
  have s: "sort_key ?f ?A = ?A" by (rule sort_key_id_if_sorted) simp
  show ?thesis
    unfolding own_property_order_def by (simp only: filter_append a1 a2 b1 b2 s append_Nil2 append_Nil)
qed

lemma filter_no_proto: "wf_stars m \<Longrightarrow> filter (\<lambda>(k, s). k \<noteq> ''__proto__'') m = m"
  by (rule filter_True) (force simp: wf_stars_def)

lemma enc_keys: "map fst (map (\<lambda>(k, s). (k, JArr s)) m) = map fst m"
  by (induction m) auto

lemma load_save_stars:
  "wf_stars (own obj) \<Longrightarrow>
   loadStarsByTopic (saveStarsByTopic obj ls) =
     Inr (StarObj (own_property_order (own obj)) ObjectPrototype)"
proof -
  let ?enc = "\<lambda>(k, s). (k, JArr s)"
  let ?m = "own_property_order (own obj)"
  assume "wf_stars (own obj)"
  then have wf: "wf_stars ?m" by (rule wf_stars_order)
  then have "distinct (map fst ?m)" by (simp add: wf_stars_def)
  then have d: "distinct (map fst (map ?enc ?m))" by (simp only: enc_keys)
  have o: "own_property_order (map ?enc ?m) = map ?enc ?m"
    by (simp only: own_property_order_map own_property_order_idem)
  have "loadJSON STARS_BY_TOPIC (JObj []) (saveStarsByTopic obj ls) = JObj (map ?enc ?m)"
    by (simp add: saveStarsByTopic_def loadJSON_saveJSON filter_no_proto [OF wf])
  then show ?thesis
    using stars_loop_enc [of "[]" ?m] wf
    by (simp add: loadStarsByTopic_def stars_of_def own_entries_def members_distinct [OF d] o
        empty_obj_def)
qed

lemma load_other_key:
  "loadStarsByTopic (saveTopics t ls) = loadStarsByTopic ls"
  "loadStarsByTopic (saveReadLater s ls) = loadStarsByTopic ls"
  "loadTopics (saveStarsByTopic m ls) = loadTopics ls"
  "loadTopics (saveReadLater s ls) = loadTopics ls"
  "loadReadLater (saveTopics t ls) = loadReadLater ls"
  "loadReadLater (saveStarsByTopic m ls) = loadReadLater ls"
  "loadTopics (saveTopics t ls) = t"
  by (simp_all add: loadStarsByTopic_def loadTopics_def loadReadLater_def saveTopics_def
      saveReadLater_def saveStarsByTopic_def loadJSON_saveJSON)



text \<open>The keys \<open>9\<close> and \<open>10\<close> are array indices; \<open>b\<close> and \<open>01\<close> are not.\<close>

lemma own_property_order_example:
  "own_property_order [(''b'', x), (''10'', y), (''9'', z), (''01'', w)] =
     [(''9'', z), (''10'', y), (''b'', x), (''01'', w)]"
  by (simp add: own_property_order_def is_index_def is_digit_def index_value_def digit_value_def)


section \<open>Import of a full payload\<close>

lemmas store_eval =
  loadReadLater_def loadTopics_def loadStarsByTopic_def saveReadLater_def saveTopics_def
  saveStarsByTopic_def loadJSON_def saveJSON_def JSON_parse_def JSON_stringify_def new_Set_def
  set_add_def set_has_def set_delete_def same_value_zero_def stars_of_def own_entries_def
  members_def own_property_order_def is_index_def is_digit_def index_value_def digit_value_def
  empty_obj_def obj_get_def obj_set_def obj_delete_def ensure_set_def
  obj_update_set_def object_prototype_names_def set_prototype_names_def
  empty_storage_def get_prop_def truthy_prop_def is_payload_def importJSONFile_def
  import_payload_def import_array_def js_includes_def js_push_def ensure_topic_def

text \<open>
  C2: the import of a full payload overwrites the tag state, where the import of an
  array merges. A storage with the read-later set \<open>p1, p2\<close>, the topics \<open>t1, t2\<close> and
  the stars \<open>p1, p2\<close> under \<open>t1\<close> holds, after the import of a payload with the
  read-later list \<open>new\<close>, the topic \<open>t\<close> and the star \<open>new\<close> under \<open>t\<close>, nothing but the
  payload; the import of the array \<open>new\<close> into the same storage adds \<open>new\<close> to the
  read-later set, or to the stars of \<open>t1\<close>, and keeps the rest.
\<close>

theorem import_payload_overwrites:
  "loadReadLater storage_full = Inr [JStr ''p1'', JStr ''p2''] \<and>
   loadTopics storage_full = JArr [JStr ''t1'', JStr ''t2''] \<and>
   loadStarsByTopic storage_full =
     Inr (StarObj [(''t1'', [JStr ''p1'', JStr ''p2'']), (''t2'', [])] ObjectPrototype) \<and>
   loadReadLater (importJSONFile (Json payload_example) None storage_full) = Inr [JStr ''new''] \<and>
   loadTopics (importJSONFile (Json payload_example) None storage_full) = JArr [JStr ''t''] \<and>
   loadStarsByTopic (importJSONFile (Json payload_example) None storage_full) =
     Inr (StarObj [(''t'', [JStr ''new''])] ObjectPrototype) \<and>
   loadReadLater (importJSONFile (Json (JArr [JStr ''new''])) (Some ''read_later'') storage_full) =
     Inr [JStr ''p1'', JStr ''p2'', JStr ''new''] \<and>
   loadStarsByTopic (importJSONFile (Json (JArr [JStr ''new''])) (Some ''t1'') storage_full) =
     Inr (StarObj [(''t1'', [JStr ''p1'', JStr ''p2'', JStr ''new'']), (''t2'', [])] ObjectPrototype)"
  by (simp add: storage_full_def storage_topics_def payload_example_def store_eval)

section \<open>Renaming a topic\<close>

lemma includes_name: "list_ex (\<lambda>y. same_value_zero y (JStr n)) ts \<longleftrightarrow> JStr n \<in> set ts"
  by (auto simp: list_ex_iff same_value_zero_def)

text \<open>
  C5: \<open>renameTopic\<close> loses the stars of the topic for two new names that it accepts.
  The storage holds the topics \<open>t1, t2\<close> and the stars \<open>p1, p2\<close> under \<open>t1\<close>. With the
  new name \<open>t1\<close>, the old name, which the prompt proposes, \<open>delete sbt[oldName]\<close>
  removes the set just assigned: the topic stays in the list and has no stars. With the
  new name \<open>__proto__\<close> the assignment sets the prototype of \<open>sbt\<close> and stores nothing:
  the list holds \<open>__proto__\<close> in the place of \<open>t1\<close>, and the stars hold neither name.
\<close>

theorem renameTopic_loses_stars:
  "loadTopics storage_topics = JArr [JStr ''t1'', JStr ''t2''] \<and>
   loadStarsByTopic storage_topics =
     Inr (StarObj [(''t1'', [JStr ''p1'', JStr ''p2'']), (''t2'', [])] ObjectPrototype) \<and>
   loadTopics (renameTopic (Some ''t1'') (Some ''t1'') storage_topics) =
     JArr [JStr ''t1'', JStr ''t2''] \<and>
   loadStarsByTopic (renameTopic (Some ''t1'') (Some ''t1'') storage_topics) =
     Inr (StarObj [(''t2'', [])] ObjectPrototype) \<and>
   loadTopics (renameTopic (Some ''t1'') (Some ''__proto__'') storage_topics) =
     JArr [JStr ''__proto__'', JStr ''t2''] \<and>
   loadStarsByTopic (renameTopic (Some ''t1'') (Some ''__proto__'') storage_topics) =
     Inr (StarObj [(''t2'', [])] ObjectPrototype)"
  by (simp add: storage_topics_def renameTopic_def rename_stars_def store_eval)

text \<open>
  Where the stars are moved: the new name differs from the old one, is no topic yet and
  is not \<open>__proto__\<close>, and the old name has stars. The new name is the property created
  last.
\<close>

lemma renameTopic_shape:
  assumes "loadTopics ls = JArr ts" and "JStr oldName \<in> set ts" and "oldName \<noteq> []"
    and "newName \<noteq> []" and "JStr newName \<notin> set ts \<or> newName = oldName"
    and "loadStarsByTopic ls = Inr sbt"
  shows "renameTopic (Some oldName) (Some newName) ls =
           rename_stars oldName newName sbt
             (saveTopics (JArr (map (\<lambda>t. if t = JStr oldName then JStr newName else t) ts)) ls)"
proof -
  from assms(2) have "ts \<noteq> []" by auto
  with assms show ?thesis
    by (auto simp: renameTopic_def includes_name load_other_key Let_def)
qed

lemma renameTopic_moves:
  assumes t: "loadTopics ls = JArr ts" and old: "JStr oldName \<in> set ts" "oldName \<noteq> []"
    and new: "newName \<noteq> []" "JStr newName \<notin> set ts" "newName \<noteq> ''__proto__''"
    and s: "loadStarsByTopic ls = Inr (StarObj m ObjectPrototype)"
    and v: "map_of m oldName = Some v"
  shows "loadTopics (renameTopic (Some oldName) (Some newName) ls) =
           JArr (map (\<lambda>t. if t = JStr oldName then JStr newName else t) ts) \<and>
         loadStarsByTopic (renameTopic (Some oldName) (Some newName) ls) =
           Inr (StarObj (own_property_order (AList.delete oldName (AList.update newName v m)))
                  ObjectPrototype)"
proof -
  let ?ls = "saveTopics (JArr (map (\<lambda>t. if t = JStr oldName then JStr newName else t) ts)) ls"
  let ?obj = "StarObj (AList.delete oldName (AList.update newName v m)) ObjectPrototype"
  from new(2) have "JStr newName \<notin> set ts \<or> newName = oldName" by simp
  from renameTopic_shape [OF t old new(1) this s]
  have "renameTopic (Some oldName) (Some newName) ls =
      rename_stars oldName newName (StarObj m ObjectPrototype) ?ls" .
  also have "\<dots> = saveStarsByTopic ?obj ?ls"
    using v new(3) by (simp add: rename_stars_def obj_get_plain obj_set_plain obj_delete_def)
  finally have shape: "renameTopic (Some oldName) (Some newName) ls = saveStarsByTopic ?obj ?ls" .
  from loadStarsByTopic_wf [OF s] have wf: "wf_stars m" by simp
  from wf v have "set_ok v" by (rule wf_stars_lookup)
  with wf new(3) have "wf_stars (own ?obj)" by (simp add: wf_stars_update wf_stars_delete)
  from load_save_stars [OF this, of ?ls] show ?thesis
    unfolding shape by (simp add: load_other_key)
qed


section \<open>The invariant of the tag store\<close>

























end
